theory Spec2Isabelle
  imports Main "HOL-Library.Word"
begin

unbundle bit_operations_syntax

section \<open>Bytes and errors\<close>

type_synonym byte = "8 word"
type_synonym bytes = "byte list"

text \<open>
  A Go byte slice that the code compares with \<open>nil\<close> (\<open>rpc.BlockHash\<close>, \<open>[]byte\<close>) is
  a \<open>bytes option\<close>: \<open>None\<close> is the nil slice, \<open>Some bs\<close> a non-nil slice.
\<close>

type_synonym BlockHash = "bytes option"

text \<open>
  The error values of the wallet and pow packages. The two errors the wallet package creates
  itself are \<open>InsufficientFunds\<close> and \<open>LedgerNotAvailable\<close>. \<open>External s\<close> is an error handed
  back by a collaborator (the RPC client, address decoding, key derivation, block hashing,
  the hashing primitive), which reports its errors as messages: a collaborator cannot return
  the wallet's own error values. \<open>Panic\<close> is a Go run-time panic (index out of range, nil
  dereference).
\<close>

type_synonym ext_error = string

datatype error =
    InsufficientFunds
  | LedgerNotAvailable
  | External string
  | Panic

section \<open>Package pow\<close>

subsection \<open>encoding/binary\<close>

definition BigEndian_PutUint64 :: "64 word \<Rightarrow> bytes" where
  "BigEndian_PutUint64 x = map (\<lambda>i. ucast (drop_bit (8 * i) x)) [7, 6, 5, 4, 3, 2, 1, 0]"

definition LittleEndian_PutUint64 :: "64 word \<Rightarrow> bytes" where
  "LittleEndian_PutUint64 x = map (\<lambda>i. ucast (drop_bit (8 * i) x)) [0, 1, 2, 3, 4, 5, 6, 7]"

text \<open>Both decoders read the first 8 bytes and panic on a shorter slice.\<close>

definition LittleEndian_Uint64 :: "bytes \<Rightarrow> error + 64 word" where
  "LittleEndian_Uint64 b =
     (if length b < 8 then Inl Panic
      else Inr (foldr (\<lambda>c acc. ucast c OR push_bit 8 acc) (take 8 b) 0))"

definition BigEndian_Uint64 :: "bytes \<Rightarrow> error + 64 word" where
  "BigEndian_Uint64 b =
     (if length b < 8 then Inl Panic
      else Inr (foldl (\<lambda>acc c. push_bit 8 acc OR ucast c) 0 (take 8 b)))"

subsection \<open>The hashing primitive\<close>

text \<open>
  \<open>blake2b.New(8, nil)\<close> of golang.org/x/crypto is unkeyed BLAKE2b with an 8-byte digest.
  It is a dependency of the repository, not part of it; the functions below follow RFC 7693
  (the mixing function, the message schedule, the compression function, the chaining over
  128-byte blocks) and serve as the concrete primitive wherever a search is evaluated. The
  theorems about the search hold for any primitive.
\<close>

definition rotr64 :: "nat \<Rightarrow> 64 word \<Rightarrow> 64 word" where
  "rotr64 n w = drop_bit n w OR push_bit (64 - n) w"

definition blake2b_G ::
  "64 word \<Rightarrow> 64 word \<Rightarrow> 64 word \<Rightarrow> 64 word \<Rightarrow> 64 word \<Rightarrow> 64 word
     \<Rightarrow> 64 word \<times> 64 word \<times> 64 word \<times> 64 word" where
  "blake2b_G a b c d x y =
     (let a1 = a + b + x; d1 = rotr64 32 (d XOR a1);
          c1 = c + d1; b1 = rotr64 24 (b XOR c1);
          a2 = a1 + b1 + y; d2 = rotr64 16 (d1 XOR a2);
          c2 = c1 + d2; b2 = rotr64 63 (b1 XOR c2)
      in (a2, b2, c2, d2))"

definition blake2b_IV :: "64 word list" where
  "blake2b_IV =
     [0x6a09e667f3bcc908, 0xbb67ae8584caa73b, 0x3c6ef372fe94f82b, 0xa54ff53a5f1d36f1,
      0x510e527fade682d1, 0x9b05688c2b3e6c1f, 0x1f83d9abfb41bd6b, 0x5be0cd19137e2179]"

definition blake2b_sigma :: "nat list list" where
  "blake2b_sigma =
     [[0, 1, 2, 3, 4, 5, 6, 7, 8, 9, 10, 11, 12, 13, 14, 15],
      [14, 10, 4, 8, 9, 15, 13, 6, 1, 12, 0, 2, 11, 7, 5, 3],
      [11, 8, 12, 0, 5, 2, 15, 13, 10, 14, 3, 6, 7, 1, 9, 4],
      [7, 9, 3, 1, 13, 12, 11, 14, 2, 6, 5, 10, 4, 0, 15, 8],
      [9, 0, 5, 7, 2, 4, 10, 15, 14, 1, 11, 12, 6, 8, 3, 13],
      [2, 12, 6, 10, 0, 11, 8, 3, 4, 13, 7, 5, 15, 14, 1, 9],
      [12, 5, 1, 15, 14, 13, 4, 10, 0, 7, 6, 3, 9, 2, 8, 11],
      [13, 11, 7, 14, 12, 1, 3, 9, 5, 0, 15, 4, 8, 6, 2, 10],
      [6, 15, 14, 9, 11, 3, 0, 8, 12, 2, 13, 7, 1, 4, 10, 5],
      [10, 2, 8, 4, 7, 6, 1, 5, 15, 11, 9, 14, 3, 12, 13, 0]]"

definition blake2b_mix ::
  "64 word list \<Rightarrow> nat \<times> nat \<times> nat \<times> nat \<Rightarrow> 64 word \<Rightarrow> 64 word \<Rightarrow> 64 word list" where
  "blake2b_mix v ix x y =
     (case ix of (a, b, c, d) \<Rightarrow>
        (case blake2b_G (v ! a) (v ! b) (v ! c) (v ! d) x y of (va, vb, vc, vd) \<Rightarrow>
           v[a := va, b := vb, c := vc, d := vd]))"

definition blake2b_columns :: "(nat \<times> nat \<times> nat \<times> nat) list" where
  "blake2b_columns =
     [(0, 4, 8, 12), (1, 5, 9, 13), (2, 6, 10, 14), (3, 7, 11, 15),
      (0, 5, 10, 15), (1, 6, 11, 12), (2, 7, 8, 13), (3, 4, 9, 14)]"

fun blake2b_mix_all ::
  "64 word list \<Rightarrow> (nat \<times> nat \<times> nat \<times> nat) list \<Rightarrow> 64 word list \<Rightarrow> nat list \<Rightarrow> 64 word list" where
  "blake2b_mix_all v (ix # ixs) m (i # j # s) =
     blake2b_mix_all (blake2b_mix v ix (m ! i) (m ! j)) ixs m s"
| "blake2b_mix_all v ixs m s = v"

definition blake2b_round :: "64 word list \<Rightarrow> 64 word list \<Rightarrow> nat \<Rightarrow> 64 word list" where
  "blake2b_round m v r = blake2b_mix_all v blake2b_columns m (blake2b_sigma ! (r mod 10))"

definition le_word64 :: "bytes \<Rightarrow> 64 word" where
  "le_word64 bs = foldr (\<lambda>c acc. ucast c OR push_bit 8 acc) bs 0"

fun blake2b_words :: "nat \<Rightarrow> bytes \<Rightarrow> 64 word list" where
  "blake2b_words 0 bs = []"
| "blake2b_words (Suc k) bs = le_word64 (take 8 bs) # blake2b_words k (drop 8 bs)"

definition blake2b_compress :: "64 word list \<Rightarrow> bytes \<Rightarrow> nat \<Rightarrow> bool \<Rightarrow> 64 word list" where
  "blake2b_compress h blk t final =
     (let m = blake2b_words 16 (blk @ replicate (128 - length blk) 0);
          v0 = h @ blake2b_IV;
          v1 = v0[12 := (v0 ! 12) XOR word_of_nat t,
                  13 := (v0 ! 13) XOR word_of_nat (t div 2 ^ 64)];
          v2 = (if final then v1[14 := NOT (v1 ! 14)] else v1);
          v = foldl (blake2b_round m) v2 [0..<12]
      in map (\<lambda>i. (h ! i) XOR (v ! i) XOR (v ! (i + 8))) [0..<8])"

function blake2b_blocks :: "64 word list \<Rightarrow> bytes \<Rightarrow> nat \<Rightarrow> 64 word list" where
  "blake2b_blocks h msg t =
     (if length msg \<le> 128 then blake2b_compress h msg (t + length msg) True
      else blake2b_blocks (blake2b_compress h (take 128 msg) (t + 128) False)
             (drop 128 msg) (t + 128))"
  by pat_completeness auto
termination
  by (relation "measure (\<lambda>(h, msg, t). length msg)") auto

definition blake2b_Sum8 :: "bytes \<Rightarrow> bytes" where
  "blake2b_Sum8 msg =
     (let h0 = blake2b_IV[0 := (blake2b_IV ! 0) XOR 0x01010008]
      in LittleEndian_PutUint64 (blake2b_blocks h0 msg 0 ! 0))"

subsection \<open>The environment of a proof-of-work search\<close>

text \<open>
  What \<open>GenerateCPU\<close> takes from outside the package: the number of CPUs, the random start,
  the hashing primitive (\<open>blake2b.New(8, nil)\<close>: whether creating it fails, and the digest of
  the bytes written since \<open>Reset\<close>), and the scheduler's choice: \<open>first_send\<close> is the index of
  the worker goroutine whose send on the channel is the one the caller receives.
\<close>

record pow_env =
  NumCPU :: nat
  rand_Uint64 :: "64 word"
  blake2b_New :: "ext_error option"
  blake2b_Sum :: "bytes \<Rightarrow> bytes"
  first_send :: nat

subsection \<open>GenerateCPU and Generate\<close>

text \<open>
  The acceptance test of one candidate, as the worker's loop body computes it: the digest of
  the candidate followed by the data, read as a little-endian 64-bit integer, against the
  target.
\<close>

definition accepts :: "(bytes \<Rightarrow> bytes) \<Rightarrow> bytes \<Rightarrow> bytes \<Rightarrow> 64 word \<Rightarrow> bool" where
  "accepts hsum work data target =
     (case LittleEndian_Uint64 (hsum (work @ data)) of
        Inl e \<Rightarrow> False
      | Inr v \<Rightarrow> target \<le> v)"

text \<open>
  One worker goroutine, from its start value \<open>x\<close>, stepping by \<open>n\<close>, until it sends its
  \<open>work\<close> buffer. The buffer holds \<open>binary.BigEndian.PutUint64(work, x)\<close>. A worker that never
  finds an accepting candidate never sends: the value \<open>None\<close>.
\<close>

partial_function (option) worker ::
  "(bytes \<Rightarrow> bytes) \<Rightarrow> bytes \<Rightarrow> 64 word \<Rightarrow> 64 word \<Rightarrow> 64 word \<Rightarrow> (error + bytes) option" where
  "worker hsum data target n x =
     (let work = BigEndian_PutUint64 x in
      case LittleEndian_Uint64 (hsum (work @ data)) of
        Inl e \<Rightarrow> Some (Inl e)
      | Inr v \<Rightarrow>
          if target \<le> v then Some (Inr work)
          else worker hsum data target n (x + n))"

text \<open>
  \<open>GenerateCPU\<close> returns \<open>(work, err)\<close>: the error of \<open>blake2b.New\<close> when creating a hash
  fails, else what arrives first on the channel. \<open>None\<close>: nothing ever arrives.
\<close>

definition GenerateCPU :: "pow_env \<Rightarrow> bytes \<Rightarrow> 64 word \<Rightarrow> (bytes option \<times> error option) option" where
  "GenerateCPU env data target =
     (let n = NumCPU env in
      if 0 < n \<and> blake2b_New env \<noteq> None
      then Some (None, map_option External (blake2b_New env))
      else if first_send env < n then
        (case worker (blake2b_Sum env) data target (of_nat n)
                (rand_Uint64 env + of_nat (first_send env)) of
           None \<Rightarrow> None
         | Some (Inl e) \<Rightarrow> Some (None, Some e)
         | Some (Inr work) \<Rightarrow> Some (Some work, None))
      else None)"

text \<open>
  The loop of \<open>Generate\<close> that swaps \<open>work[i]\<close> and \<open>work[j]\<close> while \<open>i < j\<close>, from
  \<open>i = 0\<close> and \<open>j = len(work) - 1\<close>.
\<close>

function swap_loop :: "nat \<Rightarrow> int \<Rightarrow> bytes \<Rightarrow> bytes" where
  "swap_loop i j work =
     (if int i < j then swap_loop (i + 1) (j - 1) (work[i := work ! nat j, nat j := work ! i])
      else work)"
  by pat_completeness auto
termination
  by (relation "measure (\<lambda>(i, j, work). nat (j - int i + 1))") auto

declare swap_loop.simps [simp del]
declare blake2b_blocks.simps [simp del]

definition Generate :: "pow_env \<Rightarrow> bytes \<Rightarrow> bytes \<Rightarrow> (bytes option \<times> error option) option" where
  "Generate env data difficulty =
     (case BigEndian_Uint64 difficulty of
        Inl e \<Rightarrow> Some (None, Some e)
      | Inr target \<Rightarrow>
          (case GenerateCPU env data target of
             None \<Rightarrow> None
           | Some (work, err) \<Rightarrow>
               Some (map_option (\<lambda>w. swap_loop 0 (int (length w) - 1) w) work, err)))"

subsection \<open>The winning nonce\<close>

text \<open>
  A candidate that a worker tests and passes over: its digest is read without a panic and is
  below the target.
\<close>

definition rejects :: "(bytes \<Rightarrow> bytes) \<Rightarrow> bytes \<Rightarrow> bytes \<Rightarrow> 64 word \<Rightarrow> bool" where
  "rejects hsum work data target =
     (case LittleEndian_Uint64 (hsum (work @ data)) of
        Inl e \<Rightarrow> False
      | Inr v \<Rightarrow> v < target)"

text \<open>
  The value of the loop variable \<open>x\<close> of the worker \<open>first_send\<close> in its iteration \<open>k\<close>:
  \<open>x + uint64(i)\<close> stepped \<open>k\<close> times by \<open>uint64(n)\<close>.
\<close>

definition candidate :: "pow_env \<Rightarrow> nat \<Rightarrow> 64 word" where
  "candidate env k =
     rand_Uint64 env + of_nat (first_send env) + of_nat k * of_nat (NumCPU env)"

text \<open>
  The nonce of iteration \<open>k\<close> is the winning one: the first of that worker whose big-endian
  buffer passes the acceptance test.
\<close>

definition wins :: "pow_env \<Rightarrow> bytes \<Rightarrow> 64 word \<Rightarrow> nat \<Rightarrow> bool" where
  "wins env data target k =
     (accepts (blake2b_Sum env) (BigEndian_PutUint64 (candidate env k)) data target
      \<and> (\<forall>j<k. rejects (blake2b_Sum env) (BigEndian_PutUint64 (candidate env j)) data target))"


section \<open>Package rpc: what the wallet exchanges with a node\<close>

text \<open>
  \<open>rpc.Block\<close>. \<open>Balance\<close> is a \<open>*RawAmount\<close> (a big integer); \<open>Signature\<close> and \<open>Work\<close> are
  nil until \<open>signBlock\<close> and the work generation set them.
\<close>

record Block =
  Type :: string
  Account :: string
  Previous :: BlockHash
  Representative :: string
  Balance :: int
  Link :: BlockHash
  Signature :: "bytes option"
  Work :: "bytes option"

text \<open>The fields of \<open>rpc.AccountInfo\<close> that the wallet reads.\<close>

record AccountInfo =
  Frontier :: BlockHash
  InfoRepresentative :: string
  InfoBalance :: int

text \<open>\<open>rpc.AccountBalance\<close>: the confirmed and the pending balance.\<close>

record AccountBalance =
  Confirmed :: int
  Pending :: int

text \<open>
  A request sent to a node. The wallet's calls append to a log of requests; a node's answer
  may depend on every request it has seen before, so it is a function of the log and of the
  request's arguments.
\<close>

datatype rpc_request =
    ReqAccountInfo string
  | ReqAccountsBalances "string list"
  | ReqAccountsFrontiers "string list"
  | ReqProcess Block string
  | ReqWorkGenerate BlockHash bytes

section \<open>Package wallet\<close>

subsection \<open>Data\<close>

datatype impl = seedImpl | ledgerImpl

text \<open>
  \<open>wallet.Account\<close> without its back pointer to the wallet, which every operation below
  takes as an argument.
\<close>

record Account =
  index :: "32 word"
  key :: "bytes option"
  pubkey :: "bytes option"
  address :: string
  representative :: string

text \<open>
  \<open>wallet.Wallet\<close>. The registry \<open>accounts\<close> maps an address to a pointer to an account:
  a position in the store of account objects (an \<open>Account list\<close>, where allocating appends).
  The two RPC clients are part of the collaborators below.
\<close>

record Wallet =
  isBanano :: bool
  seed :: "bytes option"
  isBip39 :: bool
  nextIndex :: "32 word"
  accounts :: "string \<rightharpoonup> nat"
  WorkDifficulty :: string
  ReceiveWorkDifficulty :: string
  impl :: impl

record SendDestination =
  DestAccount :: string
  Amount :: int

subsection \<open>Collaborators\<close>

text \<open>
  The functions the wallet package calls and this development does not define: address
  encoding (package util), key derivation and signing primitives, the canonical block
  hash, and the two RPC clients. A Go function returning \<open>(value, err)\<close> whose caller
  returns at once on an error is a sum; one whose value is used beside the error is a pair.
\<close>

record extern =
  AddressToPubkey :: "string \<Rightarrow> ext_error + bytes option"
  PubkeyToAddress :: "bytes option \<Rightarrow> string \<times> ext_error option"
  PubkeyToBananoAddress :: "bytes option \<Rightarrow> string \<times> ext_error option"
  deriveKey :: "bytes option \<Rightarrow> 32 word \<Rightarrow> ext_error + bytes option"
  deriveBip39Key :: "bytes option \<Rightarrow> 32 word \<Rightarrow> ext_error + bytes option"
  deriveKeypair :: "bytes option \<Rightarrow> bytes option \<times> bytes option \<times> ext_error option"
  Block_Hash :: "Block \<Rightarrow> ext_error + BlockHash"
  ed25519_Sign :: "bytes option \<Rightarrow> BlockHash \<Rightarrow> bytes option"
  RPC_AccountInfo :: "rpc_request list \<Rightarrow> string \<Rightarrow> ext_error + AccountInfo"
  RPC_AccountsBalances :: "rpc_request list \<Rightarrow> string list \<Rightarrow> ext_error + (string \<rightharpoonup> AccountBalance)"
  RPC_AccountsFrontiers :: "rpc_request list \<Rightarrow> string list \<Rightarrow> ext_error + (string \<Rightarrow> BlockHash)"
  RPC_Process :: "rpc_request list \<Rightarrow> Block \<Rightarrow> string \<Rightarrow> BlockHash \<times> ext_error option"
  RPCWork_WorkGenerate :: "rpc_request list \<Rightarrow> BlockHash \<Rightarrow> bytes \<Rightarrow> bytes option \<times> ext_error option"
  pow :: pow_env

subsection \<open>encoding/hex\<close>

definition fromHexChar :: "char \<Rightarrow> byte option" where
  "fromHexChar c =
     (let n = (of_char c :: nat) in
      if 48 \<le> n \<and> n \<le> 57 then Some (of_nat (n - 48))
      else if 97 \<le> n \<and> n \<le> 102 then Some (of_nat (n - 97 + 10))
      else if 65 \<le> n \<and> n \<le> 70 then Some (of_nat (n - 65 + 10))
      else None)"

text \<open>
  The bytes \<open>hex.DecodeString\<close> returns; the wallet drops its error. Decoding stops at the
  first character that is not a hexadecimal digit and at a trailing single character.
\<close>

fun hex_DecodeString :: "string \<Rightarrow> bytes" where
  "hex_DecodeString (p # q # rest) =
     (case fromHexChar p of
        None \<Rightarrow> []
      | Some a \<Rightarrow>
          (case fromHexChar q of
             None \<Rightarrow> []
           | Some b \<Rightarrow> (push_bit 4 a OR b) # hex_DecodeString rest))"
| "hex_DecodeString rest = []"

subsection \<open>Work generation\<close>

text \<open>The bytes a Go slice writes into a hash: none for the nil slice.\<close>

definition bytes_of :: "bytes option \<Rightarrow> bytes" where
  "bytes_of b = (case b of None \<Rightarrow> [] | Some bs \<Rightarrow> bs)"

text \<open>
  \<open>workGenerate\<close> and \<open>workGenerateReceive\<close>: ask the work server; on any error fall back
  to \<open>pow.Generate\<close>. The result is the log, the work and the error; \<open>None\<close> when the local
  search never returns.
\<close>

definition workGenerate ::
  "extern \<Rightarrow> Wallet \<Rightarrow> rpc_request list \<Rightarrow> BlockHash
     \<Rightarrow> (rpc_request list \<times> bytes option \<times> error option) option" where
  "workGenerate ext w log data =
     (let difficulty = hex_DecodeString (WorkDifficulty w);
          log1 = log @ [ReqWorkGenerate data difficulty] in
      case RPCWork_WorkGenerate ext log data difficulty of
        (work, None) \<Rightarrow> Some (log1, work, None)
      | (work, Some e) \<Rightarrow>
          (case Generate (pow ext) (bytes_of data) difficulty of
             None \<Rightarrow> None
           | Some (work', err) \<Rightarrow> Some (log1, work', err)))"

definition workGenerateReceive ::
  "extern \<Rightarrow> Wallet \<Rightarrow> rpc_request list \<Rightarrow> BlockHash
     \<Rightarrow> (rpc_request list \<times> bytes option \<times> error option) option" where
  "workGenerateReceive ext w log data =
     (let difficulty = hex_DecodeString (ReceiveWorkDifficulty w);
          log1 = log @ [ReqWorkGenerate data difficulty] in
      case RPCWork_WorkGenerate ext log data difficulty of
        (work, None) \<Rightarrow> Some (log1, work, None)
      | (work, Some e) \<Rightarrow>
          (case Generate (pow ext) (bytes_of data) difficulty of
             None \<Rightarrow> None
           | Some (work', err) \<Rightarrow> Some (log1, work', err)))"

subsection \<open>The two signing strategies\<close>

text \<open>
  \<open>deriveAccount\<close> and \<open>signBlock\<close> of \<open>seedImpl\<close> and \<open>ledgerImpl\<close>. Both mutate the object
  they are given: the model returns it beside the error.
\<close>

definition deriveAccount :: "extern \<Rightarrow> Wallet \<Rightarrow> Account \<Rightarrow> Account \<times> error option" where
  "deriveAccount ext w a =
     (case impl w of
        seedImpl \<Rightarrow>
          (case (if isBip39 w then deriveBip39Key ext (seed w) (index a)
                 else deriveKey ext (seed w) (index a)) of
             Inl e \<Rightarrow> (a, Some (External e))
           | Inr k \<Rightarrow>
               (case deriveKeypair ext k of
                  (pub, priv, err) \<Rightarrow>
                    (a\<lparr>key := priv, pubkey := pub\<rparr>, map_option External err)))
      | ledgerImpl \<Rightarrow> (a, Some LedgerNotAvailable))"

definition signBlock :: "extern \<Rightarrow> Wallet \<Rightarrow> Account \<Rightarrow> Block \<Rightarrow> Block \<times> error option" where
  "signBlock ext w a block =
     (case impl w of
        seedImpl \<Rightarrow>
          (case Block_Hash ext block of
             Inl e \<Rightarrow> (block, Some (External e))
           | Inr hash \<Rightarrow> (block\<lparr>Signature := ed25519_Sign ext (key a) hash\<rparr>, None))
      | ledgerImpl \<Rightarrow> (block, Some LedgerNotAvailable))"

subsection \<open>Account: building blocks\<close>

text \<open>
  Every operation takes the collaborators, the wallet, the request log and the account, and
  returns the new log and the account as the call leaves it (only \<open>representative\<close> is ever
  assigned), beside Go's results \<open>(value, err)\<close>.
\<close>

definition cache_representative :: "Account \<Rightarrow> AccountInfo \<Rightarrow> Account" where
  "cache_representative a info =
     (if representative a = [] then a\<lparr>representative := InfoRepresentative info\<rparr> else a)"

definition SendBlock ::
  "extern \<Rightarrow> Wallet \<Rightarrow> rpc_request list \<Rightarrow> Account \<Rightarrow> string \<Rightarrow> int
     \<Rightarrow> rpc_request list \<times> Account \<times> Block option \<times> error option" where
  "SendBlock ext w log a account amount =
     (case AddressToPubkey ext account of
        Inl e \<Rightarrow> (log, a, None, Some (External e))
      | Inr link \<Rightarrow>
          (let log1 = log @ [ReqAccountInfo (address a)] in
           case RPC_AccountInfo ext log (address a) of
             Inl e \<Rightarrow> (log1, a, None, Some (External e))
           | Inr info \<Rightarrow>
               (let a1 = cache_representative a info;
                    balance = InfoBalance info - amount in
                if balance < 0 then (log1, a1, None, Some InsufficientFunds)
                else
                  (let block = \<lparr>Type = ''state'', Account = address a1,
                         Previous = Frontier info, Representative = representative a1,
                         Balance = balance, Link = link, Signature = None, Work = None\<rparr> in
                   case signBlock ext w a1 block of
                     (block', err) \<Rightarrow> (log1, a1, Some block', err)))))"

text \<open>
  The loop of \<open>SendBlocks\<close> over the destinations: \<open>balance\<close> is \<open>info.Balance\<close>, which
  \<open>Sub\<close> updates in place, \<open>frontier\<close> the hash the next block names as its previous one.
\<close>

fun SendBlocks_loop ::
  "extern \<Rightarrow> Wallet \<Rightarrow> AccountInfo \<Rightarrow> Account \<Rightarrow> int \<Rightarrow> BlockHash \<Rightarrow> Block list
     \<Rightarrow> SendDestination list \<Rightarrow> Account \<times> Block list option \<times> error option" where
  "SendBlocks_loop ext w info a balance frontier blocks [] = (a, Some blocks, None)"
| "SendBlocks_loop ext w info a balance frontier blocks (destination # destinations) =
     (case AddressToPubkey ext (DestAccount destination) of
        Inl e \<Rightarrow> (a, None, Some (External e))
      | Inr link \<Rightarrow>
          (let a1 = cache_representative a info;
               balance1 = balance - Amount destination in
           if balance1 < 0 then (a1, None, Some InsufficientFunds)
           else
             (let block = \<lparr>Type = ''state'', Account = address a1,
                    Previous = frontier, Representative = representative a1,
                    Balance = balance1, Link = link, Signature = None, Work = None\<rparr> in
              case signBlock ext w a1 block of
                (block', Some e) \<Rightarrow> (a1, Some [], Some e)
              | (block', None) \<Rightarrow>
                  (case Block_Hash ext block' of
                     Inl e \<Rightarrow> (a1, None, Some (External e))
                   | Inr hash \<Rightarrow>
                       SendBlocks_loop ext w info a1 balance1 hash (blocks @ [block'])
                         destinations))))"

definition SendBlocks ::
  "extern \<Rightarrow> Wallet \<Rightarrow> rpc_request list \<Rightarrow> Account \<Rightarrow> SendDestination list
     \<Rightarrow> rpc_request list \<times> Account \<times> Block list option \<times> error option" where
  "SendBlocks ext w log a destinations =
     (let log1 = log @ [ReqAccountInfo (address a)] in
      case RPC_AccountInfo ext log (address a) of
        Inl e \<Rightarrow> (log1, a, None, Some (External e))
      | Inr info \<Rightarrow>
          (case SendBlocks_loop ext w info a (InfoBalance info) (Frontier info) [] destinations of
             (a', blocks, err) \<Rightarrow> (log1, a', blocks, err)))"

definition default_representative :: string where
  "default_representative = ''nano_3gonano8jnse4zm65jaiki9tk8ry4jtgc1smarinukho6fmbc45k3icsh6en''"

text \<open>
  \<open>receivePending(info, link)\<close>: \<open>info\<close> holds the balance after the receive. \<open>None\<close> when the
  local proof-of-work search never returns.
\<close>

definition receivePending ::
  "extern \<Rightarrow> Wallet \<Rightarrow> rpc_request list \<Rightarrow> Account \<Rightarrow> AccountInfo \<Rightarrow> BlockHash
     \<Rightarrow> (rpc_request list \<times> Account \<times> BlockHash \<times> error option) option" where
  "receivePending ext w log a info link =
     (let workHash = (if Frontier info = None then pubkey a else Frontier info);
          info1 = (if Frontier info = None then info\<lparr>Frontier := Some (replicate 32 0)\<rparr> else info);
          a1 = (if representative a = [] then
                  (let a' = a\<lparr>representative := InfoRepresentative info1\<rparr> in
                   if representative a' = [] then a'\<lparr>representative := default_representative\<rparr>
                   else a')
                else a);
          block = \<lparr>Type = ''state'', Account = address a1,
                    Previous = Frontier info1, Representative = representative a1,
                    Balance = InfoBalance info1, Link = link, Signature = None, Work = None\<rparr> in
      case signBlock ext w a1 block of
        (block1, Some e) \<Rightarrow> Some (log, a1, None, Some e)
      | (block1, None) \<Rightarrow>
          (case workGenerateReceive ext w log workHash of
             None \<Rightarrow> None
           | Some (log1, work, Some e) \<Rightarrow> Some (log1, a1, None, Some e)
           | Some (log1, work, None) \<Rightarrow>
               (let block2 = block1\<lparr>Work := work\<rparr> in
                case RPC_Process ext log1 block2 ''receive'' of
                  (hash, err) \<Rightarrow>
                    Some (log1 @ [ReqProcess block2 ''receive''], a1, hash,
                          map_option External err))))"

definition ChangeRep ::
  "extern \<Rightarrow> Wallet \<Rightarrow> rpc_request list \<Rightarrow> Account \<Rightarrow> string
     \<Rightarrow> (rpc_request list \<times> Account \<times> BlockHash \<times> error option) option" where
  "ChangeRep ext w log a rep =
     (let log1 = log @ [ReqAccountInfo (address a)] in
      case RPC_AccountInfo ext log (address a) of
        Inl e \<Rightarrow> Some (log1, a, None, Some (External e))
      | Inr info \<Rightarrow>
          (let block = \<lparr>Type = ''state'', Account = address a,
                 Previous = Frontier info, Representative = rep,
                 Balance = InfoBalance info, Link = Some (replicate 32 0),
                 Signature = None, Work = None\<rparr> in
           case signBlock ext w a block of
             (block1, Some e) \<Rightarrow> Some (log1, a, None, Some e)
           | (block1, None) \<Rightarrow>
               (case workGenerate ext w log1 (Frontier info) of
                  None \<Rightarrow> None
                | Some (log2, work, Some e) \<Rightarrow> Some (log2, a, None, Some e)
                | Some (log2, work, None) \<Rightarrow>
                    (let block2 = block1\<lparr>Work := work\<rparr>;
                         log3 = log2 @ [ReqProcess block2 ''change''] in
                     case RPC_Process ext log2 block2 ''change'' of
                       (hash, None) \<Rightarrow> Some (log3, a\<lparr>representative := rep\<rparr>, hash, None)
                     | (hash, Some e) \<Rightarrow> Some (log3, a, hash, Some (External e))))))"

subsection \<open>Wallet: the registry\<close>

definition newWallet :: "bytes option \<Rightarrow> bool \<Rightarrow> Wallet" where
  "newWallet sd banano =
     \<lparr>isBanano = banano, seed = sd, isBip39 = False, nextIndex = 0, accounts = Map.empty,
      WorkDifficulty = ''fffffff800000000'', ReceiveWorkDifficulty = ''fffffe0000000000'',
      impl = seedImpl\<rparr>"

definition NewLedgerWallet :: Wallet where
  "NewLedgerWallet = (newWallet None False)\<lparr>impl := ledgerImpl\<rparr>"

text \<open>
  \<open>NewAccount(index)\<close> on the wallet \<open>w\<close> and the store \<open>h\<close> of account objects. The new
  object \<open>&Account{w: w, index: index2}\<close> is allocated at position \<open>length h\<close>, and that
  pointer is returned beside the error, also on the error paths. \<open>None\<close>: the recursion on
  an address collision never ends.
\<close>

partial_function (option) NewAccount ::
  "extern \<Rightarrow> Wallet \<times> Account list \<Rightarrow> 32 word option
     \<Rightarrow> ((Wallet \<times> Account list) \<times> nat \<times> error option) option" where
  "NewAccount ext st idx =
     (case st of (w, h) \<Rightarrow>
        (let index2 = (case idx of None \<Rightarrow> nextIndex w | Some i \<Rightarrow> i);
             r = length h;
             a0 = \<lparr>index = index2, key = None, pubkey = None, address = [],
                    representative = []\<rparr> in
         case deriveAccount ext w a0 of
           (a1, Some e) \<Rightarrow> Some ((w, h @ [a1]), r, Some e)
         | (a1, None) \<Rightarrow>
             (case (if isBanano w then PubkeyToBananoAddress ext (pubkey a1)
                    else PubkeyToAddress ext (pubkey a1)) of
                (addr, Some e) \<Rightarrow>
                  Some ((w, h @ [a1\<lparr>address := addr\<rparr>]), r, Some (External e))
              | (addr, None) \<Rightarrow>
                  (let a2 = a1\<lparr>address := addr\<rparr>;
                       w1 = (if idx = None then w\<lparr>nextIndex := nextIndex w + 1\<rparr> else w);
                       h1 = h @ [a2] in
                   if accounts w1 addr = None
                   then Some ((w1\<lparr>accounts := (accounts w1)(addr \<mapsto> r)\<rparr>, h1), r, None)
                   else if idx = None then NewAccount ext (w1, h1) None
                   else Some ((w1, h1), r, None)))))"

text \<open>A sequence of \<open>NewAccount\<close> calls, each with or without an index, whatever each returns.\<close>

fun NewAccounts ::
  "extern \<Rightarrow> Wallet \<times> Account list \<Rightarrow> 32 word option list \<Rightarrow> (Wallet \<times> Account list) option" where
  "NewAccounts ext st [] = Some st"
| "NewAccounts ext st (idx # idxs) =
     (case NewAccount ext st idx of
        None \<Rightarrow> None
      | Some (st1, r, err) \<Rightarrow> NewAccounts ext st1 idxs)"

subsection \<open>Wallet: scanning for accounts\<close>

text \<open>The first loop of \<open>ScanForAccounts\<close>: \<open>k\<close> more accounts, their addresses appended.\<close>

fun probe_batch ::
  "extern \<Rightarrow> nat \<Rightarrow> Wallet \<times> Account list \<Rightarrow> string list
     \<Rightarrow> ((Wallet \<times> Account list) \<times> string list \<times> error option) option" where
  "probe_batch ext 0 st accs = Some (st, accs, None)"
| "probe_batch ext (Suc k) st accs =
     (case NewAccount ext st None of
        None \<Rightarrow> None
      | Some (st1, r, Some e) \<Rightarrow> Some (st1, accs, Some e)
      | Some (st1, r, None) \<Rightarrow> probe_batch ext k st1 (accs @ [address (snd st1 ! r)]))"

text \<open>
  The second loop, from slot \<open>i\<close> downwards. It returns the wallet and the slot at which it
  stopped (\<open>-1\<close> when it ran through). A nil entry of \<open>balances\<close> or of the registry is a nil
  dereference.
\<close>

function evict_loop ::
  "(string \<rightharpoonup> AccountBalance) \<Rightarrow> (string \<Rightarrow> BlockHash) \<Rightarrow> string list \<Rightarrow> Account list
     \<Rightarrow> int \<Rightarrow> Wallet \<Rightarrow> Wallet \<times> int \<times> error option" where
  "evict_loop balances frontiers accs h i w =
     (if 0 \<le> i then
        (case balances (accs ! nat i) of
           None \<Rightarrow> (w, i, Some Panic)
         | Some b \<Rightarrow>
             if 0 < Pending b then (w, i, None)
             else if frontiers (accs ! nat i) \<noteq> None then (w, i, None)
             else
               (case accounts w (accs ! nat i) of
                  None \<Rightarrow> (w, i, Some Panic)
                | Some r \<Rightarrow>
                    evict_loop balances frontiers accs h (i - 1)
                      (w\<lparr>nextIndex := index (h ! r),
                         accounts := (accounts w)(accs ! nat i := None)\<rparr>)))
      else (w, i, None))"
  by pat_completeness auto
termination
  by (relation "measure (\<lambda>(balances, frontiers, accs, h, i, w). nat (i + 1))") auto

declare evict_loop.simps [simp del]

text \<open>
  \<open>ScanForAccounts\<close>, on the wallet, the store and the request log. \<open>None\<close>: the scan never
  returns (every batch is found in use, or an address collision never ends).
\<close>

partial_function (option) ScanForAccounts ::
  "extern \<Rightarrow> (Wallet \<times> Account list) \<times> rpc_request list
     \<Rightarrow> (((Wallet \<times> Account list) \<times> rpc_request list) \<times> error option) option" where
  "ScanForAccounts ext s =
     (case s of (st, log) \<Rightarrow>
        (case probe_batch ext 10 st [] of
           None \<Rightarrow> None
         | Some (st1, accs, Some e) \<Rightarrow> Some ((st1, log), Some e)
         | Some (st1, accs, None) \<Rightarrow>
             (let log1 = log @ [ReqAccountsBalances accs] in
              case RPC_AccountsBalances ext log accs of
                Inl e \<Rightarrow> Some ((st1, log1), Some (External e))
              | Inr balances \<Rightarrow>
                  (let log2 = log1 @ [ReqAccountsFrontiers accs] in
                   case RPC_AccountsFrontiers ext log1 accs of
                     Inl e \<Rightarrow> Some ((st1, log2), Some (External e))
                   | Inr frontiers \<Rightarrow>
                       (case evict_loop balances frontiers accs (snd st1)
                               (int (length accs) - 1) (fst st1) of
                          (w2, i, Some e) \<Rightarrow> Some (((w2, snd st1), log2), Some e)
                        | (w2, i, None) \<Rightarrow>
                            if i < 5 then Some (((w2, snd st1), log2), None)
                            else ScanForAccounts ext ((w2, snd st1), log2))))))"

section \<open>Concrete environments\<close>

text \<open>
  A machine with one CPU whose random start is 1, with the BLAKE2b primitive: the search
  of a single worker from the candidate 1.
\<close>

definition pow_env_one :: pow_env where
  "pow_env_one =
     \<lparr>NumCPU = 1, rand_Uint64 = 1, blake2b_New = None, blake2b_Sum = blake2b_Sum8,
      first_send = 0\<rparr>"

text \<open>
  The same machine with a stand-in for the hashing primitive whose digest is the first 8 bytes
  of what was written: the digest of a candidate is the candidate itself, so the acceptance
  test reads the candidate's own bytes.
\<close>

definition pow_env_prefix :: pow_env where
  "pow_env_prefix =
     \<lparr>NumCPU = 1, rand_Uint64 = 1, blake2b_New = None, blake2b_Sum = take 8,
      first_send = 0\<rparr>"

text \<open>
  A node and collaborators for the concrete runs: every address but the empty one decodes, the
  account's info is a frontier, the representative \<open>rep\<close> and the confirmed balance 500, and
  the work server answers. The account at index \<open>i\<close> gets the address of \<open>i + 1\<close> letters.
\<close>

definition demo_ext :: extern where
  "demo_ext =
     \<lparr>AddressToPubkey = (\<lambda>s. if s = [] then Inl ''bad address'' else Inr (Some (map of_char s))),
      PubkeyToAddress = (\<lambda>p. (replicate (length (bytes_of p)) (CHR ''a''), None)),
      PubkeyToBananoAddress = (\<lambda>p. (replicate (length (bytes_of p)) (CHR ''b''), None)),
      deriveKey = (\<lambda>sd i. Inr (Some (replicate (Suc (unat i)) 0))),
      deriveBip39Key = (\<lambda>sd i. Inr (Some (replicate (Suc (unat i)) 1))),
      deriveKeypair = (\<lambda>k. (k, k, None)),
      Block_Hash = (\<lambda>b. Inr (Some [of_int (Balance b)])),
      ed25519_Sign = (\<lambda>k h. Some (bytes_of h)),
      RPC_AccountInfo = (\<lambda>log addr.
         Inr \<lparr>Frontier = Some [1], InfoRepresentative = ''rep'', InfoBalance = 500\<rparr>),
      RPC_AccountsBalances = (\<lambda>log accs. Inr (\<lambda>addr. Some \<lparr>Confirmed = 0, Pending = 0\<rparr>)),
      RPC_AccountsFrontiers = (\<lambda>log accs. Inr (\<lambda>addr. None)),
      RPC_Process = (\<lambda>log b subtype. (Some [7], None)),
      RPCWork_WorkGenerate = (\<lambda>log d difficulty. (Some [9], None)),
      pow = pow_env_one\<rparr>"

definition demo_wallet :: Wallet where
  "demo_wallet = newWallet (Some [1, 2, 3]) False"

definition demo_account :: Account where
  "demo_account =
     \<lparr>index = 0, key = Some [0], pubkey = Some [0], address = ''a'', representative = []\<rparr>"

text \<open>The account object that \<open>NewAccount\<close> allocates first on a Ledger wallet.\<close>

definition ledger_account :: Account where
  "ledger_account = \<lparr>index = 0, key = None, pubkey = None, address = [], representative = []\<rparr>"

text \<open>The signed send block that the concrete runs build, by previous hash and balance.\<close>

definition demo_block :: "BlockHash \<Rightarrow> int \<Rightarrow> Block" where
  "demo_block prev bal =
     \<lparr>Type = ''state'', Account = ''a'', Previous = prev, Representative = ''rep'',
      Balance = bal, Link = Some [100], Signature = Some [of_int bal], Work = None\<rparr>"

section \<open>Specification predicates\<close>


section \<open>Properties of package pow\<close>

lemma length_BigEndian_PutUint64: "length (BigEndian_PutUint64 x) = 8"
  by (simp add: BigEndian_PutUint64_def)

lemma rev_BigEndian_PutUint64: "rev (BigEndian_PutUint64 x) = LittleEndian_PutUint64 x"
  by (simp add: BigEndian_PutUint64_def LittleEndian_PutUint64_def rev_map)

lemma length_blake2b_Sum8: "length (blake2b_Sum8 msg) = 8"
  by (simp add: blake2b_Sum8_def LittleEndian_PutUint64_def Let_def)

lemma swap_step:
  "(a @ x # m @ y # b)[length a := y, Suc (length a + length m) := x]
   = a @ y # m @ x # b"
  by (simp add: list_update_append)

lemma swap_loop_mid:
  "swap_loop (length a) (int (length a) + int (length m) - 1) (a @ m @ b) = a @ rev m @ b"
proof (induction "length m" arbitrary: a m b rule: less_induct)
  case less
  show ?case
  proof (cases "length m < 2")
    case True
    then have "\<not> int (length a) < int (length a) + int (length m) - 1"
      by simp
    moreover from True have "rev m = m"
      by (cases m) (auto simp: length_Suc_conv)
    ultimately show ?thesis
      by (subst swap_loop.simps) simp
  next
    case False
    then obtain x m0 where m0: "m = x # m0" "m0 \<noteq> []"
      by (cases m) auto
    then obtain m' y where m: "m = x # m' @ [y]"
      by (metis rev_exhaust)
    have j: "nat (int (length a) + int (length m) - 1) = Suc (length a + length m')"
      by (simp add: m)
    have lt: "int (length a) < int (length a) + int (length m) - 1"
      by (simp add: m)
    have nj: "(a @ m @ b) ! Suc (length a + length m') = y"
      by (simp add: m nth_append)
    have ni: "(a @ m @ b) ! length a = x"
      by (simp add: m nth_append)
    have upd: "(a @ m @ b)[length a := y, Suc (length a + length m') := x] = (a @ [y]) @ m' @ ([x] @ b)"
      using swap_step [of a x m' y b] by (simp add: m)
    have "swap_loop (length a) (int (length a) + int (length m) - 1) (a @ m @ b)
          = swap_loop (length a + 1) (int (length a) + int (length m) - 1 - 1)
              ((a @ m @ b)[length a := (a @ m @ b) ! nat (int (length a) + int (length m) - 1),
                 nat (int (length a) + int (length m) - 1) := (a @ m @ b) ! length a])"
      using lt by (subst swap_loop.simps) simp
    also have "\<dots> = swap_loop (length (a @ [y])) (int (length (a @ [y])) + int (length m') - 1)
              ((a @ [y]) @ m' @ ([x] @ b))"
      by (simp only: j nj ni upd) (simp add: m)
    also have "\<dots> = (a @ [y]) @ rev m' @ ([x] @ b)"
      by (rule less.hyps) (simp add: m)
    finally show ?thesis by (simp add: m)
  qed
qed

lemma swap_loop_rev: "swap_loop 0 (int (length w) - 1) w = rev w"
  using swap_loop_mid [of "[]" w "[]"] by simp

lemma worker_first:
  "accepts hsum (BigEndian_PutUint64 (x + of_nat k * n)) data target \<Longrightarrow>
   (\<forall>j<k. rejects hsum (BigEndian_PutUint64 (x + of_nat j * n)) data target) \<Longrightarrow>
   worker hsum data target n x = Some (Inr (BigEndian_PutUint64 (x + of_nat k * n)))"
proof (induction k arbitrary: x)
  case 0
  then show ?case
    by (subst worker.simps) (auto simp: accepts_def Let_def split: sum.splits)
next
  case (Suc k)
  from Suc.prems(2) have r0: "rejects hsum (BigEndian_PutUint64 x) data target"
    by (auto dest: spec [of _ 0])
  have shift: "\<And>j. x + n + of_nat j * n = x + of_nat (Suc j) * n"
    by (simp add: algebra_simps)
  from Suc.prems(1) have a: "accepts hsum (BigEndian_PutUint64 (x + n + of_nat k * n)) data target"
    by (simp only: shift)
  have r: "\<forall>j<k. rejects hsum (BigEndian_PutUint64 (x + n + of_nat j * n)) data target"
  proof (intro allI impI)
    fix j assume "j < k"
    then have "Suc j < Suc k" by simp
    with Suc.prems(2) have "rejects hsum (BigEndian_PutUint64 (x + of_nat (Suc j) * n)) data target"
      by blast
    then show "rejects hsum (BigEndian_PutUint64 (x + n + of_nat j * n)) data target"
      by (simp only: shift)
  qed
  from Suc.IH [OF a r] have "worker hsum data target n (x + n)
      = Some (Inr (BigEndian_PutUint64 (x + of_nat (Suc k) * n)))"
    by (simp only: shift)
  moreover from r0 have "worker hsum data target n x = worker hsum data target n (x + n)"
    by (subst worker.simps) (auto simp: rejects_def Let_def split: sum.splits)
  ultimately show ?case by simp
qed




lemma GenerateCPU_wins:
  assumes new: "blake2b_New env = None"
    and sched: "first_send env < NumCPU env"
    and win: "wins env data target k"
  shows "GenerateCPU env data target = Some (Some (BigEndian_PutUint64 (candidate env k)), None)"
proof -
  from win have "worker (blake2b_Sum env) data target (of_nat (NumCPU env))
        (rand_Uint64 env + of_nat (first_send env))
      = Some (Inr (BigEndian_PutUint64 (candidate env k)))"
    unfolding wins_def candidate_def by (intro worker_first) auto
  with new sched show ?thesis by (simp add: GenerateCPU_def Let_def)
qed


text \<open>
  Claim C6, as the code has it. For every winning nonce \<open>x\<close> (the value of the winning
  worker's counter at its first candidate that passes), the candidate that worker hashes and
  sends is the big-endian byte encoding of \<open>x\<close>, which is what \<open>GenerateCPU\<close> returns, and
  the work value \<open>Generate\<close> returns is that buffer with its byte order reversed: the
  little-endian encoding of \<open>x\<close>.
\<close>

theorem Generate_work_byte_order:
  assumes t: "BigEndian_Uint64 difficulty = Inr target"
    and new: "blake2b_New env = None"
    and sched: "first_send env < NumCPU env"
    and win: "wins env data target k"
  shows "GenerateCPU env data target = Some (Some (BigEndian_PutUint64 (candidate env k)), None)
       \<and> Generate env data difficulty
           = Some (Some (rev (BigEndian_PutUint64 (candidate env k))), None)
       \<and> rev (BigEndian_PutUint64 (candidate env k)) = LittleEndian_PutUint64 (candidate env k)"
  using t GenerateCPU_wins [OF new sched win]
  by (simp add: Generate_def swap_loop_rev rev_BigEndian_PutUint64)


lemma BigEndian_PutUint64_1: "BigEndian_PutUint64 1 = [0, 0, 0, 0, 0, 0, 0, 1]"
  by (simp add: BigEndian_PutUint64_def)

lemma LittleEndian_PutUint64_1: "LittleEndian_PutUint64 1 = [1, 0, 0, 0, 0, 0, 0, 0]"
  by (simp add: LittleEndian_PutUint64_def)

lemma BigEndian_Uint64_two: "BigEndian_Uint64 [0, 0, 0, 0, 0, 0, 0, 2] = Inr 2"
  by (simp add: BigEndian_Uint64_def)

lemma prefix_candidate_0: "candidate pow_env_prefix 0 = 1"
  by (simp add: candidate_def pow_env_prefix_def)

lemma prefix_accepts_big_endian:
  "accepts (take 8) [0, 0, 0, 0, 0, 0, 0, 1] [] 2"
  by (simp add: accepts_def LittleEndian_Uint64_def)

lemma prefix_rejects_little_endian:
  "\<not> accepts (take 8) [1, 0, 0, 0, 0, 0, 0, 0] [] 2"
  by (simp add: accepts_def LittleEndian_Uint64_def word_le_nat_alt)

lemma prefix_wins: "wins pow_env_prefix [] 2 0"
  by (simp add: wins_def prefix_candidate_0 BigEndian_PutUint64_1 prefix_accepts_big_endian)
     (simp add: pow_env_prefix_def prefix_accepts_big_endian)

lemma prefix_GenerateCPU:
  "GenerateCPU pow_env_prefix [] 2 = Some (Some [0, 0, 0, 0, 0, 0, 0, 1], None)"
proof -
  have "blake2b_New pow_env_prefix = None" "first_send pow_env_prefix < NumCPU pow_env_prefix"
    by (simp_all add: pow_env_prefix_def)
  from GenerateCPU_wins [OF this prefix_wins] show ?thesis
    by (simp add: prefix_candidate_0 BigEndian_PutUint64_1)
qed


text \<open>
  The theorem at the search from the nonce 1 against the threshold 2, empty data.
\<close>

theorem Generate_work_byte_order_witness:
  "BigEndian_Uint64 [0, 0, 0, 0, 0, 0, 0, 2] = Inr 2
   \<and> blake2b_New pow_env_prefix = None
   \<and> first_send pow_env_prefix < NumCPU pow_env_prefix
   \<and> wins pow_env_prefix [] 2 0
   \<and> candidate pow_env_prefix 0 = 1
   \<and> GenerateCPU pow_env_prefix [] 2 = Some (Some (BigEndian_PutUint64 1), None)
   \<and> Generate pow_env_prefix [] [0, 0, 0, 0, 0, 0, 0, 2]
        = Some (Some (LittleEndian_PutUint64 1), None)
   \<and> LittleEndian_PutUint64 1 = [1, 0, 0, 0, 0, 0, 0, 0]"
proof -
  have n: "blake2b_New pow_env_prefix = None"
    and s: "first_send pow_env_prefix < NumCPU pow_env_prefix"
    by (simp_all add: pow_env_prefix_def)
  from Generate_work_byte_order [OF BigEndian_Uint64_two n s prefix_wins]
  show ?thesis
    by (simp add: prefix_candidate_0 BigEndian_Uint64_two n s prefix_wins
          LittleEndian_PutUint64_1)
qed

text \<open>
  Claim C6 as stated fails. In that search the winning nonce is 1. The buffer the worker
  hashes and sends is \<open>00 00 00 00 00 00 00 01\<close>, the big-endian encoding of 1, which passes
  the test; the little-endian encoding \<open>01 00 00 00 00 00 00 00\<close> of 1 does not pass it, so it
  is not what the worker hashed.
\<close>

theorem hashed_candidate_is_big_endian:
  "candidate pow_env_prefix 0 = 1
   \<and> wins pow_env_prefix [] 2 0
   \<and> GenerateCPU pow_env_prefix [] 2 = Some (Some (BigEndian_PutUint64 1), None)
   \<and> accepts (blake2b_Sum pow_env_prefix) (BigEndian_PutUint64 1) [] 2
   \<and> \<not> accepts (blake2b_Sum pow_env_prefix) (LittleEndian_PutUint64 1) [] 2
   \<and> BigEndian_PutUint64 1 = [0, 0, 0, 0, 0, 0, 0, 1]
   \<and> LittleEndian_PutUint64 1 = [1, 0, 0, 0, 0, 0, 0, 0]"
proof -
  have sum: "blake2b_Sum pow_env_prefix = take 8" by (simp add: pow_env_prefix_def)
  show ?thesis
    by (simp add: prefix_candidate_0 prefix_wins prefix_GenerateCPU BigEndian_PutUint64_1
          LittleEndian_PutUint64_1 sum prefix_accepts_big_endian prefix_rejects_little_endian)
qed



section \<open>Properties of the send operations\<close>

lemma cache_representative_fields:
  "index (cache_representative a info) = index a"
  "key (cache_representative a info) = key a"
  "pubkey (cache_representative a info) = pubkey a"
  "address (cache_representative a info) = address a"
  "representative (cache_representative a info) =
     (if representative a = [] then InfoRepresentative info else representative a)"
  by (simp_all add: cache_representative_def)

lemma cache_representative_idem:
  "cache_representative (cache_representative a info) info = cache_representative a info"
  by (simp add: cache_representative_def)

lemma demo_AddressToPubkey: "AddressToPubkey demo_ext ''d'' = Inr (Some [100])"
  by (simp add: demo_ext_def)

lemma demo_AccountInfo:
  "RPC_AccountInfo demo_ext log addr =
     Inr \<lparr>Frontier = Some [1], InfoRepresentative = ''rep'', InfoBalance = 500\<rparr>"
  by (simp add: demo_ext_def)

text \<open>
  Claim C1, as the code has it. Let the destination decode to a public key and the node report
  the account's info. A send of more than the confirmed balance returns the insufficient-funds
  error and no block. A send of at most the confirmed balance returns a block whose balance is
  the confirmed balance minus the amount (0 when they are equal) beside the outcome of signing
  that block: no error and the signature of its hash when the wallet signs from its seed and
  the hash of the block is computed, the error of the hash when it is not, and the
  ledger-support error with the unsigned block on a Ledger wallet.
\<close>

theorem SendBlock_outcome:
  assumes dest: "AddressToPubkey ext account = Inr link"
    and info: "RPC_AccountInfo ext log (address a) = Inr info"
  shows "(InfoBalance info < amount \<longrightarrow>
            SendBlock ext w log a account amount =
              (log @ [ReqAccountInfo (address a)], cache_representative a info, None,
               Some InsufficientFunds))
       \<and> (amount \<le> InfoBalance info \<longrightarrow>
            (\<exists>b err. SendBlock ext w log a account amount =
                 (log @ [ReqAccountInfo (address a)], cache_representative a info, Some b, err)
               \<and> Balance b = InfoBalance info - amount
               \<and> (amount = InfoBalance info \<longrightarrow> Balance b = 0)
               \<and> Type b = ''state'' \<and> Account b = address a
               \<and> Previous b = Frontier info
               \<and> Representative b = representative (cache_representative a info)
               \<and> Link b = link \<and> Work b = None
               \<and> (case impl w of
                    ledgerImpl \<Rightarrow> err = Some LedgerNotAvailable \<and> Signature b = None
                  | seedImpl \<Rightarrow>
                      (case Block_Hash ext (b\<lparr>Signature := None\<rparr>) of
                         Inl e \<Rightarrow> err = Some (External e) \<and> Signature b = None
                       | Inr h \<Rightarrow> err = None \<and> Signature b = ed25519_Sign ext (key a) h))))"
proof (intro conjI impI)
  assume "InfoBalance info < amount"
  with dest info show "SendBlock ext w log a account amount =
      (log @ [ReqAccountInfo (address a)], cache_representative a info, None,
       Some InsufficientFunds)"
    by (simp add: SendBlock_def Let_def)
next
  assume le: "amount \<le> InfoBalance info"
  let ?a1 = "cache_representative a info"
  define block where "block = \<lparr>Type = ''state'', Account = address ?a1,
       Previous = Frontier info, Representative = representative ?a1,
       Balance = InfoBalance info - amount, Link = link, Signature = None, Work = None\<rparr>"
  obtain b err where sg: "signBlock ext w ?a1 block = (b, err)"
    by (cases "signBlock ext w ?a1 block") auto
  from le dest info sg have res: "SendBlock ext w log a account amount =
      (log @ [ReqAccountInfo (address a)], ?a1, Some b, err)"
    by (simp add: SendBlock_def Let_def block_def)
  have unsigned: "b\<lparr>Signature := None\<rparr> = block"
    using sg by (auto simp: signBlock_def block_def split: impl.splits sum.splits)
  have fields: "Balance b = InfoBalance info - amount" "Type b = ''state''"
    "Account b = address a" "Previous b = Frontier info"
    "Representative b = representative ?a1" "Link b = link" "Work b = None"
    using sg by (auto simp: signBlock_def block_def cache_representative_fields
                      split: impl.splits sum.splits)
  have sig0: "case impl w of
                ledgerImpl \<Rightarrow> err = Some LedgerNotAvailable \<and> Signature b = None
              | seedImpl \<Rightarrow>
                  (case Block_Hash ext block of
                     Inl e \<Rightarrow> err = Some (External e) \<and> Signature b = None
                   | Inr h \<Rightarrow> err = None \<and> Signature b = ed25519_Sign ext (key a) h)"
  proof (cases "impl w")
    case ledgerImpl
    with sg have "b = block" "err = Some LedgerNotAvailable"
      by (simp_all add: signBlock_def)
    with ledgerImpl show ?thesis by (simp add: block_def)
  next
    case seedImpl
    show ?thesis
    proof (cases "Block_Hash ext block")
      case (Inl e)
      with sg seedImpl have "b = block" "err = Some (External e)"
        by (simp_all add: signBlock_def)
      with seedImpl Inl show ?thesis by (simp add: block_def)
    next
      case (Inr h)
      with sg seedImpl show ?thesis
        by (auto simp: signBlock_def cache_representative_fields)
    qed
  qed
  have sig: "case impl w of
                ledgerImpl \<Rightarrow> err = Some LedgerNotAvailable \<and> Signature b = None
              | seedImpl \<Rightarrow>
                  (case Block_Hash ext (b\<lparr>Signature := None\<rparr>) of
                     Inl e \<Rightarrow> err = Some (External e) \<and> Signature b = None
                   | Inr h \<Rightarrow> err = None \<and> Signature b = ed25519_Sign ext (key a) h)"
    using sig0 by (simp only: unsigned)
  from res fields sig show "\<exists>b err. SendBlock ext w log a account amount =
                 (log @ [ReqAccountInfo (address a)], cache_representative a info, Some b, err)
               \<and> Balance b = InfoBalance info - amount
               \<and> (amount = InfoBalance info \<longrightarrow> Balance b = 0)
               \<and> Type b = ''state'' \<and> Account b = address a
               \<and> Previous b = Frontier info
               \<and> Representative b = representative (cache_representative a info)
               \<and> Link b = link \<and> Work b = None
               \<and> (case impl w of
                    ledgerImpl \<Rightarrow> err = Some LedgerNotAvailable \<and> Signature b = None
                  | seedImpl \<Rightarrow>
                      (case Block_Hash ext (b\<lparr>Signature := None\<rparr>) of
                         Inl e \<Rightarrow> err = Some (External e) \<and> Signature b = None
                       | Inr h \<Rightarrow> err = None \<and> Signature b = ed25519_Sign ext (key a) h))"
    by auto
qed


lemma demo_wallet_impl: "impl demo_wallet = seedImpl"
  by (simp add: demo_wallet_def newWallet_def)

lemma demo_cache_representative:
  "cache_representative demo_account
     \<lparr>Frontier = Some [1], InfoRepresentative = ''rep'', InfoBalance = 500\<rparr>
   = demo_account\<lparr>representative := ''rep''\<rparr>"
  by (simp add: cache_representative_def demo_account_def)

lemma demo_SendBlock_500:
  "SendBlock demo_ext demo_wallet [] demo_account ''d'' 500 =
     ([ReqAccountInfo ''a''], demo_account\<lparr>representative := ''rep''\<rparr>,
      Some (demo_block (Some [1]) 0), None)"
  by (simp add: SendBlock_def demo_AddressToPubkey demo_AccountInfo Let_def
        demo_cache_representative signBlock_def demo_wallet_impl)
     (simp add: demo_ext_def demo_account_def demo_block_def bytes_of_def)

text \<open>
  The theorem on the seed-backed account of balance 500: sending 501 fails, sending 500
  succeeds with a signed block of balance 0.
\<close>

theorem SendBlock_outcome_witness:
  "AddressToPubkey demo_ext ''d'' = Inr (Some [100])
   \<and> RPC_AccountInfo demo_ext [] (address demo_account) =
       Inr \<lparr>Frontier = Some [1], InfoRepresentative = ''rep'', InfoBalance = 500\<rparr>
   \<and> SendBlock demo_ext demo_wallet [] demo_account ''d'' 501 =
       ([ReqAccountInfo ''a''], demo_account\<lparr>representative := ''rep''\<rparr>, None,
        Some InsufficientFunds)
   \<and> SendBlock demo_ext demo_wallet [] demo_account ''d'' 500 =
       ([ReqAccountInfo ''a''], demo_account\<lparr>representative := ''rep''\<rparr>,
        Some (demo_block (Some [1]) 0), None)
   \<and> Balance (demo_block (Some [1]) 0) = 0
   \<and> impl demo_wallet = seedImpl
   \<and> Block_Hash demo_ext ((demo_block (Some [1]) 0)\<lparr>Signature := None\<rparr>) = Inr (Some [0])
   \<and> Signature (demo_block (Some [1]) 0) = ed25519_Sign demo_ext (key demo_account) (Some [0])"
proof -
  note t1 = SendBlock_outcome [where ext = demo_ext and account = "''d''" and log = "[]"
      and a = demo_account and w = demo_wallet and amount = 501,
      OF demo_AddressToPubkey demo_AccountInfo]
  note t2 = SendBlock_outcome [where ext = demo_ext and account = "''d''" and log = "[]"
      and a = demo_account and w = demo_wallet and amount = 500,
      OF demo_AddressToPubkey demo_AccountInfo]
  have ad: "address demo_account = ''a''" by (simp add: demo_account_def)
  from t1 have r1: "SendBlock demo_ext demo_wallet [] demo_account ''d'' 501 =
       ([ReqAccountInfo ''a''], demo_account\<lparr>representative := ''rep''\<rparr>, None,
        Some InsufficientFunds)"
    by (simp add: demo_cache_representative ad)
  from t2 obtain b err where r2: "SendBlock demo_ext demo_wallet [] demo_account ''d'' 500 =
       ([ReqAccountInfo ''a''], demo_account\<lparr>representative := ''rep''\<rparr>, Some b, err)"
    and b0: "Balance b = 0"
    and sg: "case impl demo_wallet of
                ledgerImpl \<Rightarrow> err = Some LedgerNotAvailable \<and> Signature b = None
              | seedImpl \<Rightarrow>
                  (case Block_Hash demo_ext (b\<lparr>Signature := None\<rparr>) of
                     Inl e \<Rightarrow> err = Some (External e) \<and> Signature b = None
                   | Inr h \<Rightarrow> err = None
                       \<and> Signature b = ed25519_Sign demo_ext (key demo_account) h)"
    by (auto simp: demo_cache_representative ad)
  from r2 have b: "b = demo_block (Some [1]) 0" and e: "err = None"
    by (simp_all add: demo_SendBlock_500)
  have h: "Block_Hash demo_ext ((demo_block (Some [1]) 0)\<lparr>Signature := None\<rparr>) = Inr (Some [0])"
    by (simp add: demo_ext_def demo_block_def)
  from sg b h have s: "Signature (demo_block (Some [1]) 0)
      = ed25519_Sign demo_ext (key demo_account) (Some [0])"
    by (simp add: demo_wallet_impl)
  from r1 r2 b e b0 h s show ?thesis
    by (simp add: demo_AddressToPubkey demo_AccountInfo demo_wallet_impl)
qed

lemma NewAccount_ledger:
  "NewAccount demo_ext (NewLedgerWallet, []) None =
     Some ((NewLedgerWallet, [ledger_account]), 0, Some LedgerNotAvailable)"
  by (subst NewAccount.simps)
     (simp add: deriveAccount_def NewLedgerWallet_def newWallet_def ledger_account_def)

text \<open>
  Claim C1 as stated fails. On a Ledger wallet, the account that \<open>NewAccount\<close> hands back is
  reported a confirmed balance of 500; sending exactly 500 does not succeed: \<open>SendBlock\<close>
  returns the unsigned block of balance 0 together with the ledger-support error.
\<close>

theorem SendBlock_exact_balance_on_ledger_wallet:
  "NewAccount demo_ext (NewLedgerWallet, []) None =
     Some ((NewLedgerWallet, [ledger_account]), 0, Some LedgerNotAvailable)
   \<and> AddressToPubkey demo_ext ''d'' = Inr (Some [100])
   \<and> RPC_AccountInfo demo_ext [] (address ledger_account) =
       Inr \<lparr>Frontier = Some [1], InfoRepresentative = ''rep'', InfoBalance = 500\<rparr>
   \<and> SendBlock demo_ext NewLedgerWallet [] ledger_account ''d'' 500 =
       ([ReqAccountInfo []], ledger_account\<lparr>representative := ''rep''\<rparr>,
        Some \<lparr>Type = ''state'', Account = [], Previous = Some [1], Representative = ''rep'',
              Balance = 0, Link = Some [100], Signature = None, Work = None\<rparr>,
        Some LedgerNotAvailable)"
  by (simp add: NewAccount_ledger demo_AddressToPubkey demo_AccountInfo SendBlock_def Let_def
        signBlock_def cache_representative_def)
     (simp add: NewLedgerWallet_def ledger_account_def)

lemma signBlock_error:
  "signBlock ext w a block = (block', Some e) \<Longrightarrow> e \<noteq> InsufficientFunds"
  by (auto simp: signBlock_def split: impl.splits sum.splits)

lemma SendBlocks_loop_insufficient:
  "SendBlocks_loop ext w info a balance frontier blocks ds = (a', blks, Some InsufficientFunds)
     \<Longrightarrow> a' = cache_representative a info \<and> blks = None"
proof (induction ds arbitrary: a balance frontier blocks)
  case Nil
  then show ?case by simp
next
  case (Cons d ds)
  show ?case
  proof (cases "AddressToPubkey ext (DestAccount d)")
    case (Inl e)
    with Cons.prems show ?thesis by simp
  next
    case (Inr link)
    let ?a1 = "cache_representative a info"
    let ?b1 = "balance - Amount d"
    show ?thesis
    proof (cases "?b1 < 0")
      case True
      with Cons.prems Inr show ?thesis by (simp add: Let_def)
    next
      case False
      let ?block = "\<lparr>Type = ''state'', Account = address ?a1, Previous = frontier,
            Representative = representative ?a1, Balance = ?b1, Link = link,
            Signature = None, Work = None\<rparr>"
      obtain block' err where sg: "signBlock ext w ?a1 ?block = (block', err)"
        by (cases "signBlock ext w ?a1 ?block") auto
      show ?thesis
      proof (cases err)
        case (Some e)
        with sg signBlock_error have "e \<noteq> InsufficientFunds" by blast
        with Cons.prems Inr False sg Some show ?thesis by (simp add: Let_def)
      next
        case None
        show ?thesis
        proof (cases "Block_Hash ext block'")
          case (Inl e)
          with Cons.prems Inr False sg None show ?thesis by (simp add: Let_def)
        next
          case (Inr hash)
          with Cons.prems \<open>AddressToPubkey ext (DestAccount d) = Inr link\<close> False sg None
          have "SendBlocks_loop ext w info ?a1 ?b1 hash (blocks @ [block']) ds
                  = (a', blks, Some InsufficientFunds)"
            by (simp add: Let_def)
          from Cons.IH [OF this] show ?thesis
            by (simp add: cache_representative_idem)
        qed
      qed
    qed
  qed
qed

text \<open>
  Claim C10. \<open>SendBlock\<close> and \<open>SendBlocks\<close> assign the cached representative before they check
  the funds: a call that returns the insufficient-funds error returns no block, and leaves the
  account with every field unchanged but \<open>representative\<close>, which is the value the node
  reported if it was empty before the call, and unchanged otherwise.
\<close>

theorem insufficient_funds_frame:
  "(SendBlock ext w log a account amount = (log', a', blk, Some InsufficientFunds) \<longrightarrow>
      blk = None \<and>
      (\<exists>info. RPC_AccountInfo ext log (address a) = Inr info
         \<and> representative a' =
             (if representative a = [] then InfoRepresentative info else representative a))
      \<and> index a' = index a \<and> key a' = key a \<and> pubkey a' = pubkey a \<and> address a' = address a)
   \<and> (SendBlocks ext w log a ds = (log', a', blks, Some InsufficientFunds) \<longrightarrow>
      blks = None \<and>
      (\<exists>info. RPC_AccountInfo ext log (address a) = Inr info
         \<and> representative a' =
             (if representative a = [] then InfoRepresentative info else representative a))
      \<and> index a' = index a \<and> key a' = key a \<and> pubkey a' = pubkey a \<and> address a' = address a)"
proof (intro conjI impI)
  assume r: "SendBlock ext w log a account amount = (log', a', blk, Some InsufficientFunds)"
  then obtain link where link: "AddressToPubkey ext account = Inr link"
    by (cases "AddressToPubkey ext account") (auto simp: SendBlock_def)
  with r obtain info where info: "RPC_AccountInfo ext log (address a) = Inr info"
    by (cases "RPC_AccountInfo ext log (address a)") (auto simp: SendBlock_def Let_def)
  have res: "a' = cache_representative a info \<and> blk = None"
  proof (cases "InfoBalance info - amount < 0")
    case True
    with r link info show ?thesis by (simp add: SendBlock_def Let_def)
  next
    case False
    with r link info show ?thesis
      by (auto simp: SendBlock_def Let_def split: prod.splits dest: signBlock_error)
  qed
  from res show "blk = None" by simp
  from res info show "\<exists>info. RPC_AccountInfo ext log (address a) = Inr info
         \<and> representative a' =
             (if representative a = [] then InfoRepresentative info else representative a)"
    by (auto simp: cache_representative_fields)
  from res show "index a' = index a" "key a' = key a" "pubkey a' = pubkey a"
    "address a' = address a"
    by (simp_all add: cache_representative_fields)
next
  assume r: "SendBlocks ext w log a ds = (log', a', blks, Some InsufficientFunds)"
  then obtain info where info: "RPC_AccountInfo ext log (address a) = Inr info"
    by (cases "RPC_AccountInfo ext log (address a)") (auto simp: SendBlocks_def Let_def)
  with r have "SendBlocks_loop ext w info a (InfoBalance info) (Frontier info) [] ds
      = (a', blks, Some InsufficientFunds)"
    by (auto simp: SendBlocks_def Let_def split: prod.splits)
  from SendBlocks_loop_insufficient [OF this]
  have res: "a' = cache_representative a info \<and> blks = None" .
  from res show "blks = None" by simp
  from res info show "\<exists>info. RPC_AccountInfo ext log (address a) = Inr info
         \<and> representative a' =
             (if representative a = [] then InfoRepresentative info else representative a)"
    by (auto simp: cache_representative_fields)
  from res show "index a' = index a" "key a' = key a" "pubkey a' = pubkey a"
    "address a' = address a"
    by (simp_all add: cache_representative_fields)
qed

lemma demo_SendBlock_501:
  "SendBlock demo_ext demo_wallet [] demo_account ''d'' 501 =
     ([ReqAccountInfo ''a''], demo_account\<lparr>representative := ''rep''\<rparr>, None,
      Some InsufficientFunds)"
  by (simp add: SendBlock_def demo_AddressToPubkey demo_AccountInfo Let_def
        cache_representative_def demo_account_def)

lemma demo_SendBlocks_501:
  "SendBlocks demo_ext demo_wallet [] demo_account [\<lparr>DestAccount = ''d'', Amount = 501\<rparr>] =
     ([ReqAccountInfo ''a''], demo_account\<lparr>representative := ''rep''\<rparr>, None,
      Some InsufficientFunds)"
  by (simp add: SendBlocks_def demo_AddressToPubkey demo_AccountInfo Let_def
        cache_representative_def demo_account_def)

lemma demo_account_representative: "representative demo_account = []"
  by (simp add: demo_account_def)

text \<open>
  The theorem on the account with an empty cached representative and balance 500: a send of
  501, alone or as a list of one destination, fails and leaves \<open>rep\<close> cached.
\<close>

theorem insufficient_funds_frame_witness:
  "SendBlock demo_ext demo_wallet [] demo_account ''d'' 501 =
     ([ReqAccountInfo ''a''], demo_account\<lparr>representative := ''rep''\<rparr>, None,
      Some InsufficientFunds)
   \<and> SendBlocks demo_ext demo_wallet [] demo_account [\<lparr>DestAccount = ''d'', Amount = 501\<rparr>] =
     ([ReqAccountInfo ''a''], demo_account\<lparr>representative := ''rep''\<rparr>, None,
      Some InsufficientFunds)
   \<and> representative demo_account = []
   \<and> representative (demo_account\<lparr>representative := ''rep''\<rparr>) = ''rep''
   \<and> (\<exists>info. RPC_AccountInfo demo_ext [] (address demo_account) = Inr info
         \<and> ''rep'' = (if representative demo_account = [] then InfoRepresentative info
                       else representative demo_account))"
  using insufficient_funds_frame [where ext = demo_ext and w = demo_wallet and log = "[]"
      and a = demo_account and account = "''d''" and amount = 501
      and ds = "[\<lparr>DestAccount = ''d'', Amount = 501\<rparr>]"
      and log' = "[ReqAccountInfo ''a'']" and a' = "demo_account\<lparr>representative := ''rep''\<rparr>"
      and blk = None and blks = None]
  by (simp add: demo_SendBlock_501 demo_SendBlocks_501 demo_account_representative)


section \<open>Properties of a chain of sends\<close>













end
